theory Spec2Isabelle
  imports Complex_Main "HOL-Library.Multiset"
begin

section \<open>Python values and errors\<close>

text \<open>
  The exceptions that \<^verbatim>\<open>tilegrid.py\<close> can raise. The specification calls
  \<open>IndexError\<close> "IndexOutOfRange", \<open>ValueError\<close> "InvalidArgument" and
  \<open>NotImplementedError\<close> "NotImplemented". \<open>InvalidConfiguration\<close> is the error the
  specification asks for at construction; no statement of the source raises it.
\<close>

datatype py_error =
    ZeroDivisionError
  | UnboundLocalError
  | IndexError
  | TypeError
  | ValueError
  | NotImplementedError
  | InvalidConfiguration

text \<open>\<^verbatim>\<open>range(n)\<close>: the integers \<open>0, ..., n - 1\<close>, empty when \<open>n \<le> 0\<close>.\<close>

definition py_range :: "int \<Rightarrow> int list" where
  "py_range n = map int [0..<nat n]"

text \<open>
  \<^verbatim>\<open>tup[:k]\<close>: the first \<open>k\<close> elements when \<open>k \<ge> 0\<close>, all but the last \<open>-k\<close>
  elements when \<open>k < 0\<close>; never an error.
\<close>

definition py_slice_to :: "'a list \<Rightarrow> int \<Rightarrow> 'a list" where
  "py_slice_to tup k =
     (if 0 \<le> k then take (nat k) tup else take (length tup - nat (- k)) tup)"

text \<open>
  \<^verbatim>\<open>xs[i]\<close> on a list: a negative index counts from the end, an index out of
  range raises \<open>IndexError\<close>.
\<close>

definition list_getitem :: "'a list \<Rightarrow> int \<Rightarrow> py_error + 'a" where
  "list_getitem xs i =
     (let n = int (length xs); j = (if i < 0 then i + n else i)
      in if 0 \<le> j \<and> j < n then Inr (xs ! nat j) else Inl IndexError)"

text \<open>A \<^verbatim>\<open>for\<close> loop whose body may raise: the first error ends the loop.\<close>

fun for_each :: "('a \<Rightarrow> 's \<Rightarrow> py_error + 's) \<Rightarrow> 'a list \<Rightarrow> 's \<Rightarrow> py_error + 's" where
  "for_each body [] s = Inr s"
| "for_each body (x # xs) s =
     (case body x s of Inl e \<Rightarrow> Inl e | Inr s' \<Rightarrow> for_each body xs s')"

section \<open>The grid generator\<close>

subsection \<open>\<^verbatim>\<open>single_tile_coord\<close>\<close>

text \<open>
  The two local variables of the loop. \<open>temp\<close> is unbound (\<open>None\<close>) until the first
  assignment \<^verbatim>\<open>temp = []\<close>.
\<close>

record tile_state =
  temp :: "int list option"
  single_tile :: "int list list"

text \<open>
  One iteration of \<^verbatim>\<open>for i in range(width * height)\<close>. \<^verbatim>\<open>//\<close> and \<^verbatim>\<open>%\<close> are
  floor division and its remainder, as \<open>div\<close> and \<open>mod\<close> on \<open>int\<close>, except that
  Python raises on a zero divisor.
\<close>

definition single_tile_step :: "int \<Rightarrow> int \<Rightarrow> tile_state \<Rightarrow> py_error + tile_state" where
  "single_tile_step height i st =
     (if height = 0 then Inl ZeroDivisionError
      else
        let group_index = i div height;
            ascending = (group_index mod 2 = 0);
            number_within_group = i mod height;
            number = (if ascending then group_index * height + number_within_group
                      else (group_index + 1) * height - 1 - number_within_group);
            temp1 = (if number_within_group = 0 then Some [] else temp st)
        in case temp1 of
             None \<Rightarrow> Inl UnboundLocalError
           | Some t \<Rightarrow>
               let t' = t @ [number]
               in Inr \<lparr>temp = Some t',
                       single_tile = (if number_within_group = height - 1
                                      then single_tile st @ [t'] else single_tile st)\<rparr>)"

definition single_tile_coord :: "int \<Rightarrow> int \<Rightarrow> py_error + int list list" where
  "single_tile_coord width height =
     (case for_each (single_tile_step height) (py_range (width * height))
             \<lparr>temp = None, single_tile = []\<rparr> of
        Inl e \<Rightarrow> Inl e
      | Inr st \<Rightarrow> Inr (single_tile st))"

subsection \<open>\<^verbatim>\<open>multi_tile\<close>\<close>

text \<open>
  The inner loop \<^verbatim>\<open>for n in range(factor)\<close>: each pass extends \<open>modified_tuple\<close> by
  the shifted block and appends the extended tuple to \<open>multi_temp\<close>. The state is the
  pair \<open>(modified_tuple, multi_temp)\<close>.
\<close>

fun multi_tile_inner ::
  "int \<Rightarrow> int \<Rightarrow> int \<Rightarrow> int list \<Rightarrow> int list \<Rightarrow> int list \<times> int list list
     \<Rightarrow> int list \<times> int list list" where
  "multi_tile_inner width height factor tup [] st = st"
| "multi_tile_inner width height factor tup (n # ns) (modified_tuple, multi_temp) =
     (let modified_tuple' =
            modified_tuple @
              map (\<lambda>num. num + (factor * (width * height))) (py_slice_to tup height)
      in multi_tile_inner width height factor tup ns
           (modified_tuple', multi_temp @ [modified_tuple']))"

text \<open>The outer loop \<^verbatim>\<open>for tup in original_matrix\<close>.\<close>

fun multi_tile_outer ::
  "int \<Rightarrow> int \<Rightarrow> int \<Rightarrow> int list list \<Rightarrow> int list list \<Rightarrow> int list list" where
  "multi_tile_outer width height factor [] multi_temp = multi_temp"
| "multi_tile_outer width height factor (tup # rest) multi_temp =
     multi_tile_outer width height factor rest
       (snd (multi_tile_inner width height factor tup (py_range factor)
               (py_slice_to tup height, multi_temp)))"

definition multi_tile :: "int \<Rightarrow> int \<Rightarrow> int \<Rightarrow> int list list \<Rightarrow> int list list" where
  "multi_tile width height tile_num original_matrix =
     (let factor = tile_num - 1
      in if factor = 0 then original_matrix
         else multi_tile_outer width height factor original_matrix [])"

definition generate_grid :: "int \<Rightarrow> int \<Rightarrow> int \<Rightarrow> py_error + int list list" where
  "generate_grid width height tile_num =
     (case single_tile_coord width height of
        Inl e \<Rightarrow> Inl e
      | Inr default_tile \<Rightarrow> Inr (multi_tile width height tile_num default_tile))"

subsection \<open>The traversal formula, as the specification words it\<close>

text \<open>
  For linear position \<open>i\<close>: \<open>group_index = i // height\<close>,
  \<open>position_in_group = i % height\<close>; an even group runs low to high, an odd one high to
  low. The single-tile map is \<open>width\<close> groups of \<open>height\<close> entries, entry \<open>[x][y]\<close>
  being the physical index of \<open>i = x * height + y\<close>.
\<close>

definition physical_index :: "int \<Rightarrow> int \<Rightarrow> int" where
  "physical_index height i =
     (let group_index = i div height;
          position_in_group = i mod height
      in if group_index mod 2 = 0 then group_index * height + position_in_group
         else (group_index + 1) * height - 1 - position_in_group)"

definition serpentine_group :: "int \<Rightarrow> int \<Rightarrow> int list" where
  "serpentine_group height x =
     map (\<lambda>y. physical_index height (x * height + y)) (py_range height)"

definition serpentine_map :: "int \<Rightarrow> int \<Rightarrow> int list list" where
  "serpentine_map width height = map (serpentine_group height) (py_range width)"

text \<open>
  The \<open>j\<close>-th run of \<open>height\<close> entries of a generated tuple: run \<open>0\<close> is the base
  column, every later run is a replicated block.
\<close>

definition tile_block :: "int \<Rightarrow> nat \<Rightarrow> int list \<Rightarrow> int list" where
  "tile_block height j tup = take (nat height) (drop (j * nat height) tup)"

section \<open>The collaborators\<close>

text \<open>
  Modelled from the spec: the strip collaborator, which the sources only use through
  \<^verbatim>\<open>brightness\<close>, \<^verbatim>\<open>auto_write\<close> and \<^verbatim>\<open>show()\<close>. It is an addressable sequence of
  pixels with a brightness and an auto-write flag; \<^verbatim>\<open>show()\<close> flushes the buffer,
  recorded here as a count of flushes. Brightness values are modelled as real numbers:
  the clamp only compares them.
\<close>

record 'c strip =
  strip_pixels :: "'c list"
  strip_brightness :: real
  strip_auto_write :: bool
  strip_shows :: nat

definition strip_show :: "'c strip \<Rightarrow> 'c strip" where
  "strip_show pixels = pixels\<lparr>strip_shows := Suc (strip_shows pixels)\<rparr>"

text \<open>
  Modelled from the spec: the coordinate-addressable sub-map (class \<^verbatim>\<open>PixelMap\<close> of
  \<^verbatim>\<open>helper.py\<close>, which is not among the sources). It is constructed from the strip and
  an index tuple, here in "individual pixel" mode, and keeps the tuple it was built
  from. The strip it is bound to is the one shared collaborator, whose state is passed
  explicitly to every operation.
\<close>

record PixelMap =
  pm_ranges :: "int list"
  pm_individual_pixels :: bool

definition PixelMap_init :: "int list \<Rightarrow> bool \<Rightarrow> PixelMap" where
  "PixelMap_init pixel_ranges individual_pixels =
     \<lparr>pm_ranges = pixel_ranges, pm_individual_pixels = individual_pixels\<rparr>"

section \<open>\<^verbatim>\<open>TileGrid\<close>\<close>

text \<open>
  The fields of a \<^verbatim>\<open>TileGrid\<close> (\<^verbatim>\<open>_x\<close>, \<^verbatim>\<open>height\<close>, \<^verbatim>\<open>width\<close>, \<^verbatim>\<open>tile_num\<close>,
  \<^verbatim>\<open>n\<close>). The field \<^verbatim>\<open>_pixels\<close> is the strip, passed explicitly.
\<close>

record TileGrid =
  tg_x :: "PixelMap list"
  tg_height :: int
  tg_width :: int
  tg_tile_num :: int
  tg_n :: int

text \<open>
  \<^verbatim>\<open>__init__\<close>. The arguments \<^verbatim>\<open>orientation\<close>, \<^verbatim>\<open>alternating\<close>, \<^verbatim>\<open>reverse_x\<close>,
  \<^verbatim>\<open>reverse_y\<close>, \<^verbatim>\<open>top\<close> and \<^verbatim>\<open>bottom\<close> are never read by the source and are left
  out.
\<close>

definition TileGrid_init :: "int \<Rightarrow> int \<Rightarrow> int \<Rightarrow> py_error + TileGrid" where
  "TileGrid_init width height tile_num =
     (if tile_num > 1 then
        (case generate_grid width height tile_num of
           Inl e \<Rightarrow> Inl e
         | Inr mapper \<Rightarrow>
             let x = map (\<lambda>m. PixelMap_init m True) mapper
             in Inr \<lparr>tg_x = x, tg_height = height, tg_width = width,
                     tg_tile_num = tile_num, tg_n = int (length x)\<rparr>)
      else Inr \<lparr>tg_x = [], tg_height = height, tg_width = width,
                 tg_tile_num = tile_num, tg_n = 0\<rparr>)"

definition TileGrid_len :: "TileGrid \<Rightarrow> int" where
  "TileGrid_len self = tg_n self"

text \<open>
  An index value: an integer, a slice (the source only tests that it is one) or a
  tuple of integer coordinates.
\<close>

datatype py_index = IInt int | ISlice | ITuple "int list"

text \<open>
  \<^verbatim>\<open>__getitem__\<close>. Comparing a tuple with \<open>0\<close> is a \<open>TypeError\<close> in Python.
\<close>

definition TileGrid_getitem :: "TileGrid \<Rightarrow> py_index \<Rightarrow> py_error + PixelMap" where
  "TileGrid_getitem self index =
     (case index of
        ISlice \<Rightarrow> Inl NotImplementedError
      | ITuple _ \<Rightarrow> Inl TypeError
      | IInt i \<Rightarrow>
          let index1 = (if i < 0 then i + TileGrid_len self else i)
          in if index1 \<ge> tg_n self \<or> index1 < 0 then Inl IndexError
             else list_getitem (tg_x self) index1)"

definition TileGrid_show :: "'c strip \<Rightarrow> 'c strip" where
  "TileGrid_show pixels = strip_show pixels"

text \<open>
  \<^verbatim>\<open>__setitem__\<close>. The assignment \<^verbatim>\<open>self._x[index[0]][index[1]] = val\<close> calls the
  sub-map's own \<^verbatim>\<open>__setitem__\<close>, which belongs to \<^verbatim>\<open>helper.py\<close>; it is the parameter
  \<open>pm_setitem\<close>, a function from the sub-map, the in-tile coordinate, the colour and
  the strip state to an error or the new strip state.
\<close>

definition TileGrid_setitem ::
  "(PixelMap \<Rightarrow> int \<Rightarrow> 'c \<Rightarrow> 'c strip \<Rightarrow> py_error + 'c strip)
     \<Rightarrow> TileGrid \<Rightarrow> py_index \<Rightarrow> 'c \<Rightarrow> 'c strip \<Rightarrow> py_error + 'c strip" where
  "TileGrid_setitem pm_setitem self index val pixels =
     (case index of
        ISlice \<Rightarrow> Inl NotImplementedError
      | ITuple idx \<Rightarrow>
          (case list_getitem idx 0 of
             Inl e \<Rightarrow> Inl e
           | Inr i0 \<Rightarrow>
               (case list_getitem (tg_x self) i0 of
                  Inl e \<Rightarrow> Inl e
                | Inr sub \<Rightarrow>
                    (case list_getitem idx 1 of
                       Inl e \<Rightarrow> Inl e
                     | Inr i1 \<Rightarrow>
                         (case pm_setitem sub i1 val pixels of
                            Inl e \<Rightarrow> Inl e
                          | Inr pixels' \<Rightarrow>
                              Inr (if strip_auto_write pixels' then TileGrid_show pixels'
                                   else pixels')))))
      | IInt _ \<Rightarrow> Inl ValueError)"

text \<open>
  Python's two-argument \<^verbatim>\<open>max\<close> and \<^verbatim>\<open>min\<close> keep the first argument unless the
  second is strictly greater (smaller).
\<close>

definition py_max :: "real \<Rightarrow> real \<Rightarrow> real" where
  "py_max a b = (if b > a then b else a)"

definition py_min :: "real \<Rightarrow> real \<Rightarrow> real" where
  "py_min a b = (if b < a then b else a)"

definition TileGrid_brightness :: "'c strip \<Rightarrow> real" where
  "TileGrid_brightness pixels = strip_brightness pixels"

definition TileGrid_set_brightness :: "real \<Rightarrow> 'c strip \<Rightarrow> 'c strip" where
  "TileGrid_set_brightness brightness pixels =
     pixels\<lparr>strip_brightness := py_min (py_max brightness 0.0) 1.0\<rparr>"

text \<open>
  A concrete sub-map assignment for the examples below, in individual-pixel mode:
  coordinate \<open>y\<close> resolves to the one strip index \<open>pm_ranges ! y\<close>.
\<close>

definition example_pm_setitem :: "PixelMap \<Rightarrow> int \<Rightarrow> 'c \<Rightarrow> 'c strip \<Rightarrow> py_error + 'c strip" where
  "example_pm_setitem sub y val pixels =
     (case list_getitem (pm_ranges sub) y of
        Inl e \<Rightarrow> Inl e
      | Inr k \<Rightarrow>
          if 0 \<le> k \<and> k < int (length (strip_pixels pixels))
          then Inr (pixels\<lparr>strip_pixels := (strip_pixels pixels)[nat k := val]\<rparr>)
          else Inl IndexError)"

text \<open>
  The grid that \<^verbatim>\<open>TileGrid(strip, 4, 2, 2)\<close> builds, and a strip of sixteen pixels
  whose colours are numbers, with auto-write on.
\<close>

definition example_grid :: TileGrid where
  "example_grid =
     \<lparr>tg_x = [PixelMap_init [0, 1, 8, 9] True, PixelMap_init [3, 2, 11, 10] True,
              PixelMap_init [4, 5, 12, 13] True, PixelMap_init [7, 6, 15, 14] True],
      tg_height = 2, tg_width = 4, tg_tile_num = 2, tg_n = 4\<rparr>"

definition example_strip :: "nat strip" where
  "example_strip =
     \<lparr>strip_pixels = replicate 16 0, strip_brightness = 1, strip_auto_write = True,
      strip_shows = 0\<rparr>"

text \<open>
  The first \<open>r\<close> entries of group \<open>x\<close>, with natural-number arguments: the value of
  \<open>temp\<close> after \<open>r\<close> iterations inside group \<open>x\<close>.
\<close>

definition group_prefix :: "nat \<Rightarrow> nat \<Rightarrow> nat \<Rightarrow> int list" where
  "group_prefix H x r = map (\<lambda>y. physical_index (int H) (int x * int H + int y)) [0..<r]"

section \<open>The single-tile loop in closed form\<close>

lemma for_each_append:
  "for_each body (xs @ ys) s =
     (case for_each body xs s of Inl e \<Rightarrow> Inl e | Inr s' \<Rightarrow> for_each body ys s')"
  by (induction xs arbitrary: s) (auto split: sum.splits)

lemma div_mod_in_group:
  assumes "r < H"
  shows "(int x * int H + int r) div int H = int x"
    and "(int x * int H + int r) mod int H = int r"
proof -
  have "(x * H + r) div H = x" using assms by simp
  then have "int ((x * H + r) div H) = int x" by simp
  then show "(int x * int H + int r) div int H = int x"
    by (simp add: zdiv_int)
  have "(x * H + r) mod H = r" using assms by simp
  then have "int ((x * H + r) mod H) = int r" by simp
  then show "(int x * int H + int r) mod int H = int r"
    by (simp add: zmod_int)
qed

lemma single_tile_step_in_group:
  assumes "r < H"
  shows "single_tile_step (int H) (int x * int H + int r) st =
           (case (if r = 0 then Some [] else temp st) of
              None \<Rightarrow> Inl UnboundLocalError
            | Some t \<Rightarrow>
                Inr \<lparr>temp = Some (t @ [physical_index (int H) (int x * int H + int r)]),
                     single_tile =
                       (if Suc r = H
                        then single_tile st @ [t @ [physical_index (int H) (int x * int H + int r)]]
                        else single_tile st)\<rparr>)"
proof -
  have H: "int H \<noteq> 0" using assms by simp
  have last: "(int r = int H - 1) = (Suc r = H)" using assms by auto
  show ?thesis
    unfolding single_tile_step_def physical_index_def div_mod_in_group[OF assms]
    using H last
    by (simp add: Let_def split: option.splits)
qed

lemma one_group:
  assumes "r \<le> H"
  shows "for_each (single_tile_step (int H)) (map int [x * H ..< x * H + r]) st =
           Inr (if r = 0 then st
                else \<lparr>temp = Some (group_prefix H x r),
                      single_tile = (if r = H then single_tile st @ [group_prefix H x H]
                                     else single_tile st)\<rparr>)"
  using assms
proof (induction r)
  case 0
  then show ?case by simp
next
  case (Suc r)
  then have r: "r < H" by simp
  show ?case
  proof (cases "r = 0")
    case True
    then show ?thesis
      using single_tile_step_in_group[OF r, of x st] 
      by (auto simp: group_prefix_def)
  next
    case False
    then show ?thesis
      using Suc r single_tile_step_in_group[OF r, of x]
      by (auto simp: for_each_append group_prefix_def)
  qed
qed

lemma all_groups:
  assumes "0 < H"
  shows "for_each (single_tile_step (int H)) (map int [0 ..< W * H])
           \<lparr>temp = None, single_tile = []\<rparr> =
         Inr \<lparr>temp = (if W = 0 then None else Some (group_prefix H (W - 1) H)),
              single_tile = map (\<lambda>x. group_prefix H x H) [0..<W]\<rparr>"
proof (induction W)
  case 0
  then show ?case by simp
next
  case (Suc W)
  let ?st = "\<lparr>temp = (if W = 0 then None else Some (group_prefix H (W - 1) H)),
              single_tile = map (\<lambda>x. group_prefix H x H) [0..<W]\<rparr>"
  have "[0 ..< W * H + H] = [0 ..< W * H] @ [W * H ..< W * H + H]"
    using upt_add_eq_append[of 0 "W * H" H] by simp
  moreover have "Suc W * H = W * H + H" by simp
  ultimately have sp: "[0 ..< Suc W * H] = [0 ..< W * H] @ [W * H ..< W * H + H]"
    by (simp only:)
  have "for_each (single_tile_step (int H)) (map int [0 ..< Suc W * H])
           \<lparr>temp = None, single_tile = []\<rparr> =
        for_each (single_tile_step (int H)) (map int [W * H ..< W * H + H]) ?st"
    by (simp only: sp map_append for_each_append Suc sum.case)
  also have "\<dots> = Inr \<lparr>temp = Some (group_prefix H W H),
                          single_tile = single_tile ?st @ [group_prefix H W H]\<rparr>"
    using one_group[of H H W ?st] assms by simp
  finally show ?case by simp
qed

lemma group_prefix_full:
  "group_prefix H x H = serpentine_group (int H) (int x)"
  by (simp add: group_prefix_def serpentine_group_def py_range_def comp_def)

lemma single_tile_coord_closed:
  assumes "0 \<le> width" and "1 \<le> height"
  shows "single_tile_coord width height = Inr (serpentine_map width height)"
proof -
  define W H where "W = nat width" and "H = nat height"
  have W: "width = int W" and H: "height = int H" and H0: "0 < H"
    using assms by (simp_all add: W_def H_def)
  have "py_range (width * height) = map int [0 ..< W * H]"
    by (simp add: py_range_def W H nat_mult_distrib)
  then have "for_each (single_tile_step height) (py_range (width * height))
               \<lparr>temp = None, single_tile = []\<rparr> =
             Inr \<lparr>temp = (if W = 0 then None else Some (group_prefix H (W - 1) H)),
                  single_tile = map (\<lambda>x. group_prefix H x H) [0..<W]\<rparr>"
    using all_groups[OF H0, of W] by (simp only: H)
  moreover have "map (\<lambda>x. group_prefix H x H) [0..<W] = serpentine_map width height"
    by (simp add: serpentine_map_def py_range_def W H group_prefix_full comp_def)
  ultimately show ?thesis
    by (simp add: single_tile_coord_def)
qed

text \<open>
  C1. For every \<open>width \<ge> 1\<close> and \<open>height \<ge> 1\<close> the single-tile loop returns, without
  error, \<open>width\<close> groups of \<open>height\<close> entries, entry \<open>[x][y]\<close> being the physical index
  that the traversal formula gives for \<open>i = x * height + y\<close>: \<open>group * height + position\<close>
  in an even group, \<open>(group + 1) * height - 1 - position\<close> in an odd one. For
  \<open>width = 2\<close>, \<open>height = 3\<close> the groups are \<open>(0, 1, 2)\<close> and \<open>(5, 4, 3)\<close>.
\<close>

theorem single_tile_traversal_formula:
  "1 \<le> width \<Longrightarrow> 1 \<le> height \<Longrightarrow>
     single_tile_coord width height =
       Inr (map (\<lambda>x. map (\<lambda>y. physical_index height (x * height + y)) (py_range height))
              (py_range width))
     \<and> (\<forall>i. 0 \<le> i \<and> i < width * height \<longrightarrow>
            physical_index height i =
              (if even (i div height) then (i div height) * height + i mod height
               else (i div height + 1) * height - 1 - i mod height))
     \<and> single_tile_coord 2 3 = Inr [[0, 1, 2], [5, 4, 3]]"
proof -
  assume w: "1 \<le> width" and h: "1 \<le> height"
  have "single_tile_coord width height = Inr (serpentine_map width height)"
    using w h by (intro single_tile_coord_closed) simp_all
  moreover have "single_tile_coord 2 3 = Inr (serpentine_map 2 3)"
    by (intro single_tile_coord_closed) simp_all
  moreover have "serpentine_map 2 3 = [[0, 1, 2], [5, 4, 3]]"
    by (simp add: serpentine_map_def serpentine_group_def py_range_def physical_index_def
        upt_conv_Cons)
  ultimately show ?thesis
    by (simp add: serpentine_map_def serpentine_group_def physical_index_def Let_def
        even_iff_mod_2_eq_zero)
qed

theorem single_tile_traversal_formula_witness:
  "(1::int) \<le> 2 \<and> (1::int) \<le> 3 \<and> single_tile_coord 2 3 = Inr [[0, 1, 2], [5, 4, 3]]"
proof -
  have w: "(1::int) \<le> 2" and h: "(1::int) \<le> 3" by simp_all
  from single_tile_traversal_formula [OF w h]
  have "single_tile_coord 2 3 = Inr [[0, 1, 2], [5, 4, 3]]" by (elim conjE)
  with w h show ?thesis by blast
qed


section \<open>The traversal is a permutation\<close>

lemma physical_index_decompose:
  assumes "0 < height"
  shows "\<exists>r. 0 \<le> r \<and> r < height \<and> physical_index height i = (i div height) * height + r
             \<and> r = (if even (i div height) then i mod height else height - 1 - i mod height)"
proof -
  have m: "0 \<le> i mod height" "i mod height < height" using assms by simp_all
  show ?thesis
  proof (cases "even (i div height)")
    case True
    then have "physical_index height i = (i div height) * height + i mod height"
      by (simp add: physical_index_def Let_def even_iff_mod_2_eq_zero)
    with True m show ?thesis by auto
  next
    case False
    then have "physical_index height i = (i div height + 1) * height - 1 - i mod height"
      by (simp add: physical_index_def Let_def even_iff_mod_2_eq_zero)
    then have "physical_index height i = (i div height) * height + (height - 1 - i mod height)"
      by (simp add: algebra_simps)
    moreover have "0 \<le> height - 1 - i mod height" "height - 1 - i mod height < height"
      using m by linarith+
    ultimately show ?thesis using False by auto
  qed
qed

lemma div_mod_of_group:
  fixes g r height :: int
  assumes "0 \<le> r" "r < height"
  shows "(g * height + r) div height = g" "(g * height + r) mod height = r"
  using assms by simp_all

lemma physical_index_involution:
  assumes "0 < height"
  shows "physical_index height (physical_index height i) = i"
proof -
  define g m where "g = i div height" and "m = i mod height"
  have i: "i = g * height + m" by (simp add: g_def m_def)
  obtain r where r: "0 \<le> r" "r < height"
      "physical_index height i = g * height + r"
      "r = (if even g then m else height - 1 - m)"
    using physical_index_decompose[OF assms, of i] unfolding g_def m_def by blast
  have d: "physical_index height i div height = g"
    and md: "physical_index height i mod height = r"
    using r div_mod_of_group[of r height g] by simp_all
  show ?thesis
  proof (cases "even g")
    case True
    then have "physical_index height (physical_index height i) = g * height + r"
      using d md
      by (simp add: physical_index_def[of height "physical_index height i"] Let_def
          even_iff_mod_2_eq_zero)
    then show ?thesis using True r(4) i by simp
  next
    case False
    then have "physical_index height (physical_index height i) = (g + 1) * height - 1 - r"
      using d md
      by (simp add: physical_index_def[of height "physical_index height i"] Let_def
          even_iff_mod_2_eq_zero)
    also have "\<dots> = g * height + m"
      using False r(4) by (simp add: algebra_simps)
    finally show ?thesis using i by simp
  qed
qed

lemma physical_index_range:
  assumes "0 < height" "0 \<le> i" "i < width * height"
  shows "0 \<le> physical_index height i \<and> physical_index height i < width * height"
proof -
  define g where "g = i div height"
  obtain r where r: "0 \<le> r" "r < height" "physical_index height i = g * height + r"
    using physical_index_decompose[OF assms(1), of i] unfolding g_def by blast
  have g0: "0 \<le> g" using assms by (simp add: g_def pos_imp_zdiv_nonneg_iff)
  have "i = g * height + i mod height" by (simp add: g_def)
  moreover have "0 \<le> i mod height" using assms(1) by simp
  ultimately have "g * height \<le> i" by linarith
  then have "g * height < width * height" using assms(3) by linarith
  then have "g < width" using assms(1) by (simp add: mult_less_cancel_right)
  then have "(g + 1) * height \<le> width * height"
    using assms(1) by (intro mult_right_mono) simp_all
  then have "g * height + r < width * height" using r(2) by (simp add: algebra_simps)
  moreover have "0 \<le> g * height" using g0 assms(1) by simp
  ultimately show ?thesis using r by simp
qed

lemma physical_index_image:
  assumes "0 < height"
  shows "physical_index height ` {0..<width * height} = {0..<width * height}"
proof
  show "physical_index height ` {0..<width * height} \<subseteq> {0..<width * height}"
    using physical_index_range[OF assms] by auto
  show "{0..<width * height} \<subseteq> physical_index height ` {0..<width * height}"
  proof
    fix v assume v: "v \<in> {0..<width * height}"
    then have "physical_index height v \<in> {0..<width * height}"
      using physical_index_range[OF assms, of v width] by simp
    moreover have "v = physical_index height (physical_index height v)"
      using physical_index_involution[OF assms] by simp
    ultimately show "v \<in> physical_index height ` {0..<width * height}" by (rule rev_image_eqI)
  qed
qed

lemma physical_index_inj: 
  assumes "0 < height"
  shows "inj (physical_index height)"
  using physical_index_involution[OF assms] by (metis injI)

lemma concat_groups:
  "concat (map (\<lambda>x. map (\<lambda>y. f (x * H + y)) [0..<H]) [0..<W]) = map f [0..<W * H]"
proof (induction W)
  case 0
  then show ?case by simp
next
  case (Suc W)
  have "[0 ..< W * H + H] = [0 ..< W * H] @ [W * H ..< W * H + H]"
    using upt_add_eq_append[of 0 "W * H" H] by simp
  moreover have "Suc W * H = W * H + H" by simp
  ultimately have sp: "[0 ..< Suc W * H] = [0 ..< W * H] @ [W * H ..< W * H + H]"
    by (simp only:)
  have "map (\<lambda>y. f (W * H + y)) [0..<H] = map f (map (\<lambda>y. y + W * H) [0..<H])"
    by (simp add: comp_def add.commute)
  also have "\<dots> = map f [W * H ..< W * H + H]"
    by (simp only: map_add_upt add.commute)
  finally have blk: "map (\<lambda>y. f (W * H + y)) [0..<H] = map f [W * H ..< W * H + H]" .
  have "concat (map (\<lambda>x. map (\<lambda>y. f (x * H + y)) [0..<H]) [0..<Suc W]) =
          concat (map (\<lambda>x. map (\<lambda>y. f (x * H + y)) [0..<H]) [0..<W]) @
            map (\<lambda>y. f (W * H + y)) [0..<H]"
    by simp
  also have "\<dots> = map f [0 ..< W * H] @ map f [W * H ..< W * H + H]"
    by (simp only: Suc blk)
  also have "\<dots> = map f [0 ..< Suc W * H]"
    by (simp only: sp map_append)
  finally show ?case .
qed

lemma concat_serpentine_map:
  assumes "0 \<le> width" "0 \<le> height"
  shows "concat (serpentine_map width height) =
           map (physical_index height) (py_range (width * height))"
proof -
  define W H where "W = nat width" and "H = nat height"
  have W: "width = int W" and H: "height = int H" using assms by (simp_all add: W_def H_def)
  have "concat (serpentine_map width height) =
          concat (map (\<lambda>x. map (\<lambda>y. physical_index (int H) (int (x * H + y))) [0..<H]) [0..<W])"
    by (simp add: serpentine_map_def serpentine_group_def py_range_def W H comp_def)
  also have "\<dots> = map (\<lambda>k. physical_index (int H) (int k)) [0..<W * H]"
    by (rule concat_groups)
  also have "\<dots> = map (physical_index height) (py_range (width * height))"
    by (simp add: py_range_def W H nat_mult_distrib comp_def)
  finally show ?thesis .
qed

lemma set_py_range: "set (py_range n) = {0..<n}"
proof (rule set_eqI)
  fix v
  show "v \<in> set (py_range n) \<longleftrightarrow> v \<in> {0..<n}"
  proof
    assume "v \<in> set (py_range n)"
    then obtain k where "k < nat n" "v = int k" by (auto simp: py_range_def)
    then show "v \<in> {0..<n}" by simp
  next
    assume v: "v \<in> {0..<n}"
    then have "nat v < nat n" "v = int (nat v)" by simp_all
    then show "v \<in> set (py_range n)"
      unfolding py_range_def set_map set_upt by (intro image_eqI[of _ _ "nat v"]) simp_all
  qed
qed

lemma distinct_py_range: "distinct (py_range n)"
  by (simp add: py_range_def distinct_map)

lemma traversal_permutation:
  assumes "0 \<le> width" "0 < height"
  shows "mset (concat (serpentine_map width height)) = mset (py_range (width * height))"
    and "distinct (concat (serpentine_map width height))"
    and "set (concat (serpentine_map width height)) = {0..<width * height}"
    and "length (concat (serpentine_map width height)) = nat (width * height)"
proof -
  let ?xs = "concat (serpentine_map width height)"
  have eq: "?xs = map (physical_index height) (py_range (width * height))"
    using assms by (intro concat_serpentine_map) simp_all
  show len: "length ?xs = nat (width * height)"
    by (simp add: eq py_range_def)
  show d: "distinct ?xs"
    unfolding eq using physical_index_inj[OF assms(2)] distinct_py_range
    by (simp add: distinct_map inj_on_def inj_def)
  show s: "set ?xs = {0..<width * height}"
    unfolding eq using physical_index_image[OF assms(2), of width]
    by (simp add: set_py_range)
  have "set ?xs = set (py_range (width * height))"
    by (simp only: s set_py_range)
  then show "mset ?xs = mset (py_range (width * height))"
    using d distinct_py_range[of "width * height"]
    by (simp only: set_eq_iff_mset_eq_distinct)
qed


lemma single_tile_coord_2_3: "single_tile_coord 2 3 = Inr [[0, 1, 2], [5, 4, 3]]"
proof -
  have "single_tile_coord 2 3 = Inr (serpentine_map 2 3)"
    by (intro single_tile_coord_closed) simp_all
  moreover have "serpentine_map 2 3 = [[0, 1, 2], [5, 4, 3]]"
    by (simp add: serpentine_map_def serpentine_group_def py_range_def physical_index_def
        upt_conv_Cons)
  ultimately show ?thesis by simp
qed

text \<open>
  C2. For every \<open>width \<ge> 1\<close> and \<open>height \<ge> 1\<close> the concatenation of the groups of the
  single-tile map is a permutation of \<open>[0, width * height)\<close>: it has
  \<open>width * height\<close> entries, no entry occurs twice, and its entries are exactly the
  integers from \<open>0\<close> to \<open>width * height - 1\<close>.
\<close>

theorem single_tile_traversal_permutation:
  "1 \<le> width \<Longrightarrow> 1 \<le> height \<Longrightarrow>
     \<exists>tile. single_tile_coord width height = Inr tile
       \<and> length (concat tile) = nat (width * height)
       \<and> distinct (concat tile)
       \<and> set (concat tile) = {0..<width * height}
       \<and> mset (concat tile) = mset (py_range (width * height))"
proof -
  assume w: "1 \<le> width" and h: "1 \<le> height"
  have "single_tile_coord width height = Inr (serpentine_map width height)"
    using w h by (intro single_tile_coord_closed) simp_all
  moreover have "0 \<le> width" "0 < height" using w h by simp_all
  ultimately show ?thesis
    using traversal_permutation[of width height] by blast
qed

theorem single_tile_traversal_permutation_witness:
  "(1::int) \<le> 2 \<and> (1::int) \<le> 3
   \<and> single_tile_coord 2 3 = Inr [[0, 1, 2], [5, 4, 3]]
   \<and> length [0, 1, 2, 5, 4, 3 :: int] = nat (2 * 3)
   \<and> distinct [0, 1, 2, 5, 4, 3 :: int]
   \<and> set [0, 1, 2, 5, 4, 3 :: int] = {0..<2 * 3}
   \<and> mset [0, 1, 2, 5, 4, 3 :: int] = mset (py_range (2 * 3))"
proof -
  have w: "(1::int) \<le> 2" and h: "(1::int) \<le> 3" by simp_all
  from single_tile_traversal_permutation [OF w h] obtain tile where
    t: "single_tile_coord 2 3 = Inr tile"
      "length (concat tile) = nat (2 * 3)" "distinct (concat tile)"
      "set (concat tile) = {0..<2 * 3}" "mset (concat tile) = mset (py_range (2 * 3))"
    by blast
  have "tile = [[0, 1, 2], [5, 4, 3]]" using t(1) single_tile_coord_2_3 by simp
  then have "concat tile = [0, 1, 2, 5, 4, 3]" by simp
  with t w h single_tile_coord_2_3 show ?thesis by (simp only:)
qed


section \<open>The replication loops in closed form\<close>

lemma multi_tile_inner_closed:
  "multi_tile_inner width height factor tup ns (m, acc) =
     (m @ concat (replicate (length ns)
                    (map (\<lambda>num. num + (factor * (width * height))) (py_slice_to tup height))),
      acc @ map (\<lambda>k. m @ concat (replicate (Suc k)
                    (map (\<lambda>num. num + (factor * (width * height))) (py_slice_to tup height))))
              [0..<length ns])"
proof (induction ns arbitrary: m acc)
  case Nil
  then show ?case by simp
next
  case (Cons n ns)
  have "[0..<Suc (length ns)] = 0 # map Suc [0..<length ns]"
    by (simp only: upt_conv_Cons map_Suc_upt zero_less_Suc)
  then show ?case
    using Cons by (simp add: Let_def comp_def del: upt_Suc)
qed

lemma multi_tile_outer_closed:
  "multi_tile_outer width height factor original multi_temp =
     multi_temp @
       concat (map (\<lambda>tup. map (\<lambda>k. py_slice_to tup height @
                               concat (replicate (Suc k)
                                 (map (\<lambda>num. num + (factor * (width * height)))
                                    (py_slice_to tup height))))
                          [0..<nat factor])
                 original)"
proof (induction original arbitrary: multi_temp)
  case Nil
  then show ?case by simp
next
  case (Cons tup rest)
  show ?case
    by (simp add: Cons multi_tile_inner_closed py_range_def del: upt_Suc)
qed

lemma length_serpentine_group: "length (serpentine_group height x) = nat height"
  by (simp add: serpentine_group_def py_range_def)

lemma py_slice_to_serpentine_group:
  "0 \<le> height \<Longrightarrow> py_slice_to (serpentine_group height x) height = serpentine_group height x"
  by (simp add: py_slice_to_def length_serpentine_group)

lemma generate_grid_closed:
  assumes "0 \<le> width" "1 \<le> height" "tile_num \<noteq> 1"
  shows "generate_grid width height tile_num =
           Inr (concat (map (\<lambda>x. map (\<lambda>k. serpentine_group height x @
                                       concat (replicate (Suc k)
                                         (map (\<lambda>num. num + ((tile_num - 1) * (width * height)))
                                            (serpentine_group height x))))
                                  [0..<nat (tile_num - 1)])
                         (py_range width)))"
proof -
  have "single_tile_coord width height = Inr (serpentine_map width height)"
    using assms by (intro single_tile_coord_closed) simp_all
  then have "generate_grid width height tile_num =
               Inr (multi_tile_outer width height (tile_num - 1) (serpentine_map width height) [])"
    using assms(3) by (simp add: generate_grid_def multi_tile_def)
  also have "\<dots> = Inr (concat (map (\<lambda>x. map (\<lambda>k. serpentine_group height x @
                                       concat (replicate (Suc k)
                                         (map (\<lambda>num. num + ((tile_num - 1) * (width * height)))
                                            (serpentine_group height x))))
                                  [0..<nat (tile_num - 1)])
                         (py_range width)))"
    using assms(2)
    by (simp add: multi_tile_outer_closed serpentine_map_def comp_def py_slice_to_serpentine_group)
  finally show ?thesis .
qed

lemma generate_grid_two_tiles:
  assumes "0 \<le> width" "1 \<le> height"
  shows "generate_grid width height 2 =
           Inr (map (\<lambda>x. serpentine_group height x @
                           map (\<lambda>num. num + width * height) (serpentine_group height x))
                  (py_range width))"
  using generate_grid_closed[OF assms, of 2] by (simp add: comp_def)

lemma generate_grid_one_tile:
  assumes "0 \<le> width" "1 \<le> height"
  shows "generate_grid width height 1 = Inr (serpentine_map width height)"
  using single_tile_coord_closed[OF assms] by (simp add: generate_grid_def multi_tile_def)


lemma nth_serpentine_group:
  assumes "y < nat height"
  shows "serpentine_group height x ! y = physical_index height (x * height + int y)"
  using assms by (simp add: serpentine_group_def py_range_def)

lemma generate_grid_4_2_2:
  "generate_grid 4 2 2 = Inr [[0, 1, 8, 9], [3, 2, 11, 10], [4, 5, 12, 13], [7, 6, 15, 14]]"
proof -
  have "generate_grid 4 2 2 =
          Inr (map (\<lambda>x. serpentine_group 2 x @ map (\<lambda>num. num + 4 * 2) (serpentine_group 2 x))
                 (py_range 4))"
    by (intro generate_grid_two_tiles) simp_all
  also have "\<dots> = Inr [[0, 1, 8, 9], [3, 2, 11, 10], [4, 5, 12, 13], [7, 6, 15, 14]]"
    by (simp add: serpentine_group_def py_range_def physical_index_def upt_conv_Cons)
  finally show ?thesis .
qed

text \<open>
  C5. For every \<open>width \<ge> 1\<close> and \<open>height \<ge> 1\<close>, \<^verbatim>\<open>generate_grid(width, height, 2)\<close>
  returns exactly \<open>width\<close> tuples, one per column; tuple \<open>g\<close> has \<open>2 * height\<close>
  entries, its first \<open>height\<close> entries are the serpentine traversal of column \<open>g\<close>, and
  each of its last \<open>height\<close> entries is the corresponding entry of the first half plus
  \<open>width * height\<close>. Hence a \<^verbatim>\<open>TileGrid\<close> built with \<open>tile_num = 2\<close> has length
  \<open>width\<close>, its sub-maps being built from these tuples.
\<close>

theorem two_tile_mapper_shape:
  "1 \<le> width \<Longrightarrow> 1 \<le> height \<Longrightarrow>
     \<exists>grid tg. generate_grid width height 2 = Inr grid
       \<and> length grid = nat width
       \<and> (\<forall>g < nat width.
             length (grid ! g) = 2 * nat height
           \<and> take (nat height) (grid ! g) = serpentine_group height (int g)
           \<and> (\<forall>y < nat height. grid ! g ! (nat height + y) = grid ! g ! y + width * height))
       \<and> TileGrid_init width height 2 = Inr tg
       \<and> TileGrid_len tg = width
       \<and> map pm_ranges (tg_x tg) = grid"
proof -
  assume w: "1 \<le> width" and h: "1 \<le> height"
  define grid where "grid = map (\<lambda>x. serpentine_group height x @
                           map (\<lambda>num. num + width * height) (serpentine_group height x))
                  (py_range width)"
  define tg where "tg = \<lparr>tg_x = map (\<lambda>m. PixelMap_init m True) grid, tg_height = height,
                         tg_width = width, tg_tile_num = 2, tg_n = int (length grid)\<rparr>"
  have gen: "generate_grid width height 2 = Inr grid"
    unfolding grid_def using w h by (intro generate_grid_two_tiles) simp_all
  have len: "length grid = nat width"
    by (simp add: grid_def py_range_def)
  have cols: "length (grid ! g) = 2 * nat height
           \<and> take (nat height) (grid ! g) = serpentine_group height (int g)
           \<and> (\<forall>y < nat height. grid ! g ! (nat height + y) = grid ! g ! y + width * height)"
    if "g < nat width" for g
  proof -
    have g: "grid ! g = serpentine_group height (int g) @
                          map (\<lambda>num. num + width * height) (serpentine_group height (int g))"
      using that by (simp add: grid_def py_range_def)
    show ?thesis
      by (simp add: g length_serpentine_group nth_append)
  qed
  have init: "TileGrid_init width height 2 = Inr tg"
    by (simp add: TileGrid_init_def gen tg_def)
  have "TileGrid_len tg = width"
    using w by (simp add: TileGrid_len_def tg_def len)
  moreover have "map pm_ranges (tg_x tg) = grid"
    by (simp add: tg_def PixelMap_init_def comp_def)
  ultimately show ?thesis
    using gen len cols init by blast
qed

theorem two_tile_mapper_shape_witness:
  "(1::int) \<le> 4 \<and> (1::int) \<le> 2
   \<and> generate_grid 4 2 2 = Inr [[0, 1, 8, 9], [3, 2, 11, 10], [4, 5, 12, 13], [7, 6, 15, 14]]
   \<and> (\<exists>tg. TileGrid_init 4 2 2 = Inr tg \<and> TileGrid_len tg = 4
         \<and> map pm_ranges (tg_x tg) =
             [[0, 1, 8, 9], [3, 2, 11, 10], [4, 5, 12, 13], [7, 6, 15, 14]])"
proof -
  have w: "(1::int) \<le> 4" and h: "(1::int) \<le> 2" by simp_all
  from two_tile_mapper_shape [OF w h] obtain grid tg where
    t: "generate_grid 4 2 2 = Inr grid" "TileGrid_init 4 2 2 = Inr tg"
       "TileGrid_len tg = 4" "map pm_ranges (tg_x tg) = grid"
    by blast
  have "grid = [[0, 1, 8, 9], [3, 2, 11, 10], [4, 5, 12, 13], [7, 6, 15, 14]]"
    using t(1) generate_grid_4_2_2 by simp
  with t show ?thesis by auto
qed


section \<open>Construction at the boundary\<close>

lemma single_tile_step_negative_height:
  assumes "height < 0" and "0 \<le> i" and "i = 0 \<or> temp st \<noteq> None"
  shows "\<exists>t'. single_tile_step height i st = Inr \<lparr>temp = Some t', single_tile = single_tile st\<rparr>"
proof -
  have "height < i mod height" using assms(1) by simp
  then have nl: "i mod height \<noteq> height - 1" by linarith
  show ?thesis
  proof (cases "i mod height = 0")
    case True
    then show ?thesis
      using assms(1) nl by (simp add: single_tile_step_def Let_def)
  next
    case False
    then have "i \<noteq> 0" by auto
    then obtain t where "temp st = Some t" using assms(3) by auto
    then show ?thesis
      using assms(1) nl False by (simp add: single_tile_step_def Let_def)
  qed
qed

lemma negative_height_loop:
  assumes "height < 0"
  shows "\<exists>t. for_each (single_tile_step height) (map int [0..<k])
               \<lparr>temp = None, single_tile = []\<rparr> = Inr \<lparr>temp = t, single_tile = []\<rparr>
             \<and> (0 < k \<longrightarrow> t \<noteq> None)"
proof (induction k)
  case 0
  then show ?case by simp
next
  case (Suc k)
  then obtain t where t: "for_each (single_tile_step height) (map int [0..<k])
               \<lparr>temp = None, single_tile = []\<rparr> = Inr \<lparr>temp = t, single_tile = []\<rparr>"
      "0 < k \<longrightarrow> t \<noteq> None" by blast
  have "int k = 0 \<or> temp \<lparr>temp = t, single_tile = []\<rparr> \<noteq> None"
    using t(2) by (cases "k = 0") simp_all
  from single_tile_step_negative_height[OF assms _ this]
  obtain t' where "single_tile_step height (int k) \<lparr>temp = t, single_tile = []\<rparr> =
                     Inr \<lparr>temp = Some t', single_tile = []\<rparr>"
    by auto
  then show ?case
    using t(1) by (simp add: for_each_append)
qed

lemma single_tile_coord_nonpositive:
  assumes "width \<le> 0 \<or> height \<le> 0"
  shows "single_tile_coord width height = Inr []"
proof (cases "width * height \<le> 0")
  case True
  then show ?thesis by (simp add: single_tile_coord_def py_range_def)
next
  case False
  then have "0 < width * height" by simp
  then have "height < 0" using assms by (auto simp: zero_less_mult_iff)
  from negative_height_loop[OF this, of "nat (width * height)"]
  show ?thesis by (auto simp: single_tile_coord_def py_range_def)
qed

lemma generate_grid_nonpositive:
  assumes "width \<le> 0 \<or> height \<le> 0 \<or> tile_num \<le> 0"
  shows "generate_grid width height tile_num = Inr []"
proof (cases "width \<le> 0 \<or> height \<le> 0")
  case True
  then show ?thesis
    by (simp add: generate_grid_def single_tile_coord_nonpositive multi_tile_def)
next
  case False
  then have wh: "0 \<le> width" "1 \<le> height" and t: "tile_num \<le> 0" using assms by auto
  then have "tile_num \<noteq> 1" "nat (tile_num - 1) = 0" by simp_all
  then show ?thesis
    using generate_grid_closed[OF wh, of tile_num] by simp
qed

lemma TileGrid_init_nonpositive:
  assumes "width \<le> 0 \<or> height \<le> 0 \<or> tile_num \<le> 0"
  shows "TileGrid_init width height tile_num =
           Inr \<lparr>tg_x = [], tg_height = height, tg_width = width,
                tg_tile_num = tile_num, tg_n = 0\<rparr>"
  using generate_grid_nonpositive[OF assms] by (simp add: TileGrid_init_def)

text \<open>
  C6. For every configuration with \<open>tile_num \<le> 1\<close> (for instance \<open>width = 8\<close>,
  \<open>height = 8\<close>, \<open>tile_num = 1\<close>) construction succeeds with an empty collection of
  sub-maps, and the length of the \<^verbatim>\<open>TileGrid\<close> is \<open>0\<close>.
\<close>

theorem single_tile_boundary:
  "tile_num \<le> 1 \<Longrightarrow>
     \<exists>tg. TileGrid_init width height tile_num = Inr tg \<and> tg_x tg = [] \<and> TileGrid_len tg = 0"
  by (simp add: TileGrid_init_def TileGrid_len_def)

theorem single_tile_boundary_witness:
  "(1::int) \<le> 1
   \<and> TileGrid_init 8 8 1 =
       Inr \<lparr>tg_x = [], tg_height = 8, tg_width = 8, tg_tile_num = 1, tg_n = 0\<rparr>
   \<and> TileGrid_len \<lparr>tg_x = [], tg_height = 8, tg_width = 8, tg_tile_num = 1, tg_n = 0\<rparr> = 0"
proof -
  have t: "(1::int) \<le> 1" by simp
  from single_tile_boundary [OF t, of 8 8] obtain tg where
    "TileGrid_init 8 8 1 = Inr tg" "tg_x tg = []" "TileGrid_len tg = 0" by blast
  moreover have "TileGrid_init 8 8 1 =
       Inr \<lparr>tg_x = [], tg_height = 8, tg_width = 8, tg_tile_num = 1, tg_n = 0\<rparr>"
    by (simp add: TileGrid_init_def)
  ultimately show ?thesis by auto
qed

text \<open>
  C7, as the code has it. Construction with a non-positive \<open>width\<close>, \<open>height\<close> or
  \<open>tile_num\<close> raises no error: it returns a \<^verbatim>\<open>TileGrid\<close> with an empty collection of
  sub-maps and length \<open>0\<close>, and the grid generator called with such arguments returns the
  empty list.
\<close>

theorem nonpositive_configuration_builds_empty_grid:
  "width \<le> 0 \<or> height \<le> 0 \<or> tile_num \<le> 0 \<Longrightarrow>
     generate_grid width height tile_num = Inr []
     \<and> (\<exists>tg. TileGrid_init width height tile_num = Inr tg \<and> tg_x tg = []
            \<and> TileGrid_len tg = 0)"
  using generate_grid_nonpositive[of width height tile_num]
    TileGrid_init_nonpositive[of width height tile_num]
  by (simp add: TileGrid_len_def)

theorem nonpositive_configuration_builds_empty_grid_witness:
  "((-2::int) \<le> 0 \<or> (-3::int) \<le> 0 \<or> (2::int) \<le> 0)
   \<and> generate_grid (-2) (-3) 2 = Inr []
   \<and> (\<exists>tg. TileGrid_init (-2) (-3) 2 = Inr tg \<and> tg_x tg = [] \<and> TileGrid_len tg = 0)"
proof -
  have c: "(-2::int) \<le> 0 \<or> (-3::int) \<le> 0 \<or> (2::int) \<le> 0" by simp
  from nonpositive_configuration_builds_empty_grid [OF c] show ?thesis by simp
qed

theorem nonpositive_configuration_counterexample:
  "TileGrid_init 0 0 0 =
     Inr \<lparr>tg_x = [], tg_height = 0, tg_width = 0, tg_tile_num = 0, tg_n = 0\<rparr>
   \<and> TileGrid_init 0 0 0 \<noteq> Inl InvalidConfiguration
   \<and> TileGrid_init (-2) (-3) 2 =
     Inr \<lparr>tg_x = [], tg_height = -3, tg_width = -2, tg_tile_num = 2, tg_n = 0\<rparr>
   \<and> TileGrid_init (-2) (-3) 2 \<noteq> Inl InvalidConfiguration"
proof -
  have "TileGrid_init 0 0 0 =
     Inr \<lparr>tg_x = [], tg_height = 0, tg_width = 0, tg_tile_num = 0, tg_n = 0\<rparr>"
    by (simp add: TileGrid_init_def)
  moreover have "TileGrid_init (-2) (-3) 2 =
     Inr \<lparr>tg_x = [], tg_height = -3, tg_width = -2, tg_tile_num = 2, tg_n = 0\<rparr>"
    by (intro TileGrid_init_nonpositive) simp
  ultimately show ?thesis by simp
qed


section \<open>Two tiles\<close>

lemma TileGrid_init_two_tiles:
  assumes "0 \<le> width" "1 \<le> height"
  shows "TileGrid_init width height 2 =
           Inr \<lparr>tg_x = map (\<lambda>x. PixelMap_init
                                 (serpentine_group height x @
                                    map (\<lambda>num. num + width * height) (serpentine_group height x))
                                 True)
                         (py_range width),
                tg_height = height, tg_width = width, tg_tile_num = 2, tg_n = width\<rparr>"
  using assms
  by (simp add: TileGrid_init_def generate_grid_two_tiles[OF assms] comp_def py_range_def)

lemma TileGrid_init_4_2_2:
  "TileGrid_init 4 2 2 =
     Inr \<lparr>tg_x = [PixelMap_init [0, 1, 8, 9] True, PixelMap_init [3, 2, 11, 10] True,
                  PixelMap_init [4, 5, 12, 13] True, PixelMap_init [7, 6, 15, 14] True],
          tg_height = 2, tg_width = 4, tg_tile_num = 2, tg_n = 4\<rparr>"
  by (simp add: TileGrid_init_def generate_grid_4_2_2)

text \<open>
  C4, as the code has it. For every \<open>width \<ge> 1\<close> and \<open>height \<ge> 1\<close>, a \<^verbatim>\<open>TileGrid\<close>
  built with \<open>tile_num = 2\<close> owns exactly \<open>width\<close> views, one per column and each
  spanning both tiles: for \<open>y < height\<close>, entry \<open>y\<close> of view \<open>x\<close> is the serpentine index
  of position \<open>x * height + y\<close>, and entry \<open>height + y\<close> is that index plus
  \<open>width * height\<close>. For \<open>width = 4\<close>, \<open>height = 2\<close> the four views are \<open>(0, 1, 8, 9)\<close>,
  \<open>(3, 2, 11, 10)\<close>, \<open>(4, 5, 12, 13)\<close> and \<open>(7, 6, 15, 14)\<close>: their first halves
  together hold the base traversal over \<open>[0, 8)\<close>, their second halves the same traversal
  shifted by \<open>8\<close>.
\<close>

theorem two_tile_grid_views:
  "1 \<le> width \<Longrightarrow> 1 \<le> height \<Longrightarrow>
     \<exists>tg. TileGrid_init width height 2 = Inr tg
       \<and> TileGrid_len tg = width
       \<and> length (tg_x tg) = nat width
       \<and> (\<forall>x < nat width. \<forall>y < nat height.
             pm_ranges (tg_x tg ! x) ! y = physical_index height (int x * height + int y)
           \<and> pm_ranges (tg_x tg ! x) ! (nat height + y) =
               physical_index height (int x * height + int y) + width * height)
       \<and> TileGrid_init 4 2 2 =
           Inr \<lparr>tg_x = [PixelMap_init [0, 1, 8, 9] True, PixelMap_init [3, 2, 11, 10] True,
                        PixelMap_init [4, 5, 12, 13] True, PixelMap_init [7, 6, 15, 14] True],
                tg_height = 2, tg_width = 4, tg_tile_num = 2, tg_n = 4\<rparr>"
proof -
  assume w: "1 \<le> width" and h: "1 \<le> height"
  define tg where "tg = \<lparr>tg_x = map (\<lambda>x. PixelMap_init
                                 (serpentine_group height x @
                                    map (\<lambda>num. num + width * height) (serpentine_group height x))
                                 True)
                         (py_range width),
                tg_height = height, tg_width = width, tg_tile_num = 2, tg_n = width\<rparr>"
  have init: "TileGrid_init width height 2 = Inr tg"
    unfolding tg_def using w h by (intro TileGrid_init_two_tiles) simp_all
  have len: "TileGrid_len tg = width" "length (tg_x tg) = nat width"
    by (simp_all add: tg_def TileGrid_len_def py_range_def)
  have entry: "pm_ranges (tg_x tg ! x) ! y = physical_index height (int x * height + int y)
           \<and> pm_ranges (tg_x tg ! x) ! (nat height + y) =
               physical_index height (int x * height + int y) + width * height"
    if x: "x < nat width" and y: "y < nat height" for x y
  proof -
    have r: "pm_ranges (tg_x tg ! x) =
               serpentine_group height (int x) @
                 map (\<lambda>num. num + width * height) (serpentine_group height (int x))"
      using x by (simp add: tg_def py_range_def PixelMap_init_def)
    show ?thesis
      using y by (simp add: r nth_append length_serpentine_group nth_serpentine_group)
  qed
  show ?thesis
    apply (rule exI[of _ tg])
    apply (intro conjI allI impI)
    using init len entry TileGrid_init_4_2_2 by simp_all
qed

theorem two_tile_grid_views_witness:
  "(1::int) \<le> 4 \<and> (1::int) \<le> 2
   \<and> (\<exists>tg. TileGrid_init 4 2 2 = Inr tg \<and> TileGrid_len tg = 4
         \<and> map pm_ranges (tg_x tg) =
              [[0, 1, 8, 9], [3, 2, 11, 10], [4, 5, 12, 13], [7, 6, 15, 14]])"
proof -
  have w: "(1::int) \<le> 4" and h: "(1::int) \<le> 2" by simp_all
  from two_tile_grid_views [OF w h] obtain tg where
    t: "TileGrid_init 4 2 2 = Inr tg" "TileGrid_len tg = 4"
    by blast
  then have "map pm_ranges (tg_x tg) =
              [[0, 1, 8, 9], [3, 2, 11, 10], [4, 5, 12, 13], [7, 6, 15, 14]]"
    using TileGrid_init_4_2_2 by (auto simp: PixelMap_init_def)
  with t show ?thesis by auto
qed

theorem tile_count_counterexample:
  "TileGrid_init 4 2 2 =
     Inr \<lparr>tg_x = [PixelMap_init [0, 1, 8, 9] True, PixelMap_init [3, 2, 11, 10] True,
                  PixelMap_init [4, 5, 12, 13] True, PixelMap_init [7, 6, 15, 14] True],
          tg_height = 2, tg_width = 4, tg_tile_num = 2, tg_n = 4\<rparr>
   \<and> TileGrid_len
        \<lparr>tg_x = [PixelMap_init [0, 1, 8, 9] True, PixelMap_init [3, 2, 11, 10] True,
                  PixelMap_init [4, 5, 12, 13] True, PixelMap_init [7, 6, 15, 14] True],
          tg_height = 2, tg_width = 4, tg_tile_num = 2, tg_n = 4\<rparr> \<noteq> 2
   \<and> pm_ranges (PixelMap_init [0, 1, 8, 9] True) \<noteq> [0, 1, 3, 2, 4, 5, 7, 6]"
  using TileGrid_init_4_2_2 by (simp add: TileGrid_len_def PixelMap_init_def)


section \<open>More than two tiles\<close>

lemma block_of_replicate:
  assumes "length blk = H" "j < n"
  shows "take H (drop (j * H) (concat (replicate n blk))) = blk"
  using assms(2)
proof (induction n arbitrary: j)
  case 0
  then show ?case by simp
next
  case (Suc n)
  show ?case
  proof (cases j)
    case 0
    then show ?thesis using assms(1) by simp
  next
    case (Suc j')
    then have "j' < n" using Suc.prems by simp
    then show ?thesis using Suc.IH[of j'] Suc assms(1) by simp
  qed
qed

lemma blocks_of_generated_tuple:
  fixes sg :: "int list"
  assumes "length sg = nat height"
    and "tup = sg @ concat (replicate (Suc k) (map f sg))"
  shows "tile_block height 0 tup = sg"
    and "1 \<le> j \<Longrightarrow> j * nat height < length tup \<Longrightarrow> tile_block height j tup = map f sg"
proof -
  note tup_def = assms(2)
  show "tile_block height 0 tup = sg"
    using assms(1) by (simp add: tile_block_def tup_def)
  assume j: "1 \<le> j" "j * nat height < length tup"
  obtain j' where j': "j = Suc j'" using j(1) by (cases j) simp_all
  have "length tup = (k + 2) * nat height"
    using assms(1) by (simp add: tup_def length_concat sum_list_replicate)
  then have "j * nat height < (k + 2) * nat height" using j(2) by simp
  then have "j < k + 2" by (simp only: mult_less_cancel2)
  then have lt: "j' < Suc k" using j' by simp
  have "drop (j * nat height) tup = drop (j' * nat height) (concat (replicate (Suc k) (map f sg)))"
    using assms(1) by (simp add: tup_def j')
  then show "tile_block height j tup = map f sg"
    unfolding tile_block_def
    using block_of_replicate[of "map f sg" "nat height" j' "Suc k"] assms(1) lt by simp
qed


lemma shift_range:
  fixes off n :: int
  shows "(\<lambda>num. num + off) ` {0..<n} = {off..<off + n}"
  by (simp add: add.commute)

lemma set_serpentine_groups:
  assumes "0 \<le> width" "0 < height"
  shows "(\<Union>x\<in>set (py_range width). set (serpentine_group height x)) = {0..<width * height}"
proof -
  have "(\<Union>x\<in>set (py_range width). set (serpentine_group height x)) =
          set (concat (serpentine_map width height))"
    by (simp add: serpentine_map_def)
  then show ?thesis using traversal_permutation(3)[OF assms] by simp
qed


text \<open>
  C3. For every \<open>width \<ge> 1\<close>, \<open>height \<ge> 1\<close> and \<open>tile_num > 1\<close>, every replicated block
  of every generated tuple is the tuple's base column with the one constant
  \<open>(tile_num - 1) * width * height\<close> added, whatever the position of the block. So for
  \<open>tile_num > 2\<close> there are tuples whose replicated blocks repeat the same indices, and
  the indices that occur at all are those of tile \<open>0\<close>, \<open>[0, width * height)\<close>, and
  those of the last tile, \<open>[(tile_num - 1) * width * height, tile_num * width * height)\<close>:
  the range of the last tile is the only one, apart from that of tile \<open>0\<close>, that any
  replicated block covers.
\<close>

theorem constant_replication_offset:
  "1 \<le> width \<Longrightarrow> 1 \<le> height \<Longrightarrow> 1 < tile_num \<Longrightarrow>
     \<exists>grid. generate_grid width height tile_num = Inr grid
       \<and> length grid = nat width * nat (tile_num - 1)
       \<and> (\<forall>tup \<in> set grid. \<forall>j. 1 \<le> j \<and> j * nat height < length tup \<longrightarrow>
             tile_block height j tup =
               map (\<lambda>num. num + (tile_num - 1) * (width * height)) (tile_block height 0 tup))
       \<and> (2 < tile_num \<longrightarrow>
             (\<exists>tup \<in> set grid. length tup = 3 * nat height
                \<and> tile_block height 1 tup \<noteq> []
                \<and> tile_block height 1 tup = tile_block height 2 tup))
       \<and> (\<Union>tup \<in> set grid. set tup) =
             {0..<width * height}
               \<union> {(tile_num - 1) * (width * height)..<tile_num * (width * height)}"
proof -
  assume w: "1 \<le> width" and h: "1 \<le> height" and t: "1 < tile_num"
  define off where "off = (tile_num - 1) * (width * height)"
  define tuple_of where
    "tuple_of x k = serpentine_group height x @
                      concat (replicate (Suc k) (map (\<lambda>num. num + off) (serpentine_group height x)))"
    for x k
  define grid where
    "grid = concat (map (\<lambda>x. map (tuple_of x) [0..<nat (tile_num - 1)]) (py_range width))"
  have gen: "generate_grid width height tile_num = Inr grid"
    unfolding grid_def tuple_of_def off_def
    using w h t by (intro generate_grid_closed) simp_all
  have len: "length grid = nat width * nat (tile_num - 1)"
    by (simp add: grid_def length_concat comp_def py_range_def sum_list_triv)
  have mem: "tup \<in> set grid \<longleftrightarrow>
               (\<exists>x \<in> set (py_range width). \<exists>k < nat (tile_num - 1). tup = tuple_of x k)" for tup
  proof -
    have "set grid = (\<Union>x \<in> set (py_range width). tuple_of x ` {0..<nat (tile_num - 1)})"
      by (simp add: grid_def)
    then show ?thesis
      by (simp only: UN_iff image_iff Bex_def atLeastLessThan_iff) blast
  qed
  have blocks: "tile_block height j tup = map (\<lambda>num. num + off) (tile_block height 0 tup)"
    if "tup \<in> set grid" "1 \<le> j" "j * nat height < length tup" for tup j
  proof -
    from that(1) have "\<exists>x \<in> set (py_range width). \<exists>k < nat (tile_num - 1). tup = tuple_of x k"
      by (simp only: mem)
    then obtain x k where tup: "tup = tuple_of x k" by blast
    have l: "length (serpentine_group height x) = nat height"
      by (rule length_serpentine_group)
    show ?thesis
      using blocks_of_generated_tuple[OF l tup[unfolded tuple_of_def]] that(2,3) by simp
  qed
  have dup: "\<exists>tup \<in> set grid. length tup = 3 * nat height
                \<and> tile_block height 1 tup \<noteq> []
                \<and> tile_block height 1 tup = tile_block height 2 tup" if "2 < tile_num"
  proof -
    let ?tup = "tuple_of 0 1"
    have "0 \<in> set (py_range width)" using w by (simp add: set_py_range)
    moreover have "1 < nat (tile_num - 1)" using that by simp
    ultimately have "\<exists>x \<in> set (py_range width). \<exists>k < nat (tile_num - 1). ?tup = tuple_of x k"
      by blast
    then have in_grid: "?tup \<in> set grid" by (simp only: mem)
    have l: "length (serpentine_group height 0) = nat height"
      by (rule length_serpentine_group)
    have lt: "length ?tup = 3 * nat height"
      by (simp add: tuple_of_def l)
    have pos: "0 < nat height" using h by simp
    have b1: "tile_block height 1 ?tup = map (\<lambda>num. num + off) (serpentine_group height 0)"
      using blocks_of_generated_tuple(2)[OF l refl, of 1 1 "\<lambda>num. num + off"] pos lt
      by (simp add: tuple_of_def)
    have b2: "tile_block height 2 ?tup = map (\<lambda>num. num + off) (serpentine_group height 0)"
      using blocks_of_generated_tuple(2)[OF l refl, of 2 1 "\<lambda>num. num + off"] pos lt
      by (simp add: tuple_of_def)
    have "tile_block height 1 ?tup \<noteq> []"
      using b1 l pos by auto
    then show ?thesis using in_grid lt b1 b2 by auto
  qed
  have set_tuple: "set (tuple_of x k) =
      set (serpentine_group height x) \<union> (\<lambda>num. num + off) ` set (serpentine_group height x)"
    for x k
    by (simp add: tuple_of_def)
  have ne: "0 < nat (tile_num - 1)" using t by simp
  have "(\<Union>tup \<in> set grid. set tup) =
          (\<Union>x \<in> set (py_range width). \<Union>k \<in> {0..<nat (tile_num - 1)}. set (tuple_of x k))"
    by (auto simp: grid_def)
  also have "\<dots> = (\<Union>x \<in> set (py_range width).
                     set (serpentine_group height x)
                       \<union> (\<lambda>num. num + off) ` set (serpentine_group height x))"
    using ne by (simp add: set_tuple)
  also have "\<dots> = (\<Union>x \<in> set (py_range width). set (serpentine_group height x))
                    \<union> (\<lambda>num. num + off) `
                        (\<Union>x \<in> set (py_range width). set (serpentine_group height x))"
    by blast
  also have "\<dots> = {0..<width * height} \<union> {off..<off + width * height}"
    using w h by (simp only: set_serpentine_groups shift_range) 
  also have "off + width * height = tile_num * (width * height)"
    by (simp add: off_def algebra_simps)
  finally have range: "(\<Union>tup \<in> set grid. set tup) =
             {0..<width * height} \<union> {off..<tile_num * (width * height)}" .
  show ?thesis
    apply (rule exI[of _ grid])
    using gen len blocks dup range unfolding off_def by blast
qed


lemma generate_grid_2_2_3:
  "generate_grid 2 2 3 =
     Inr [[0, 1, 8, 9], [0, 1, 8, 9, 8, 9], [3, 2, 11, 10], [3, 2, 11, 10, 11, 10]]"
proof -
  have n: "nat (3 - 1) = Suc (Suc 0)" by simp
  have "generate_grid 2 2 3 =
          Inr (concat (map (\<lambda>x. map (\<lambda>k. serpentine_group 2 x @
                                       concat (replicate (Suc k)
                                         (map (\<lambda>num. num + ((3 - 1) * (2 * 2)))
                                            (serpentine_group 2 x))))
                                  [0..<nat (3 - 1)])
                         (py_range 2)))"
    by (intro generate_grid_closed) simp_all
  also have "\<dots> = Inr [[0, 1, 8, 9], [0, 1, 8, 9, 8, 9], [3, 2, 11, 10], [3, 2, 11, 10, 11, 10]]"
    unfolding n
    by (simp add: serpentine_group_def py_range_def physical_index_def upt_conv_Cons)
  finally show ?thesis .
qed

theorem constant_replication_offset_witness:
  "(1::int) \<le> 2 \<and> (1::int) \<le> 2 \<and> (1::int) < 3
   \<and> generate_grid 2 2 3 =
       Inr [[0, 1, 8, 9], [0, 1, 8, 9, 8, 9], [3, 2, 11, 10], [3, 2, 11, 10, 11, 10]]
   \<and> tile_block 2 2 [0, 1, 8, 9, 8, 9] =
       map (\<lambda>num. num + (3 - 1) * (2 * 2)) (tile_block 2 0 [0, 1, 8, 9, 8, 9])
   \<and> (\<Union>tup \<in> set [[0, 1, 8, 9], [0, 1, 8, 9, 8, 9], [3, 2, 11, 10], [3, 2, 11, 10, 11, 10]].
         set tup) = {0..<2 * 2} \<union> {(3 - 1) * (2 * 2)..<3 * (2 * 2 :: int)}"
proof -
  have w: "(1::int) \<le> 2" and t: "(1::int) < 3" by simp_all
  from constant_replication_offset [OF w w t] obtain grid where
    g: "generate_grid 2 2 3 = Inr grid"
       "\<forall>tup \<in> set grid. \<forall>j. 1 \<le> j \<and> j * nat 2 < length tup \<longrightarrow>
             tile_block 2 j tup = map (\<lambda>num. num + (3 - 1) * (2 * 2)) (tile_block 2 0 tup)"
       "(\<Union>tup \<in> set grid. set tup) = {0..<2 * 2} \<union> {(3 - 1) * (2 * 2)..<3 * (2 * 2 :: int)}"
    by blast
  have grid: "grid = [[0, 1, 8, 9], [0, 1, 8, 9, 8, 9], [3, 2, 11, 10], [3, 2, 11, 10, 11, 10]]"
    using g(1) generate_grid_2_2_3 by simp
  have "[0, 1, 8, 9, 8, 9] \<in> set grid" by (simp add: grid)
  moreover have "(1::nat) \<le> 2 \<and> 2 * nat 2 < length [0, 1, 8, 9, 8, 9 :: int]" by simp
  ultimately have "tile_block 2 2 [0, 1, 8, 9, 8, 9] =
       map (\<lambda>num. num + (3 - 1) * (2 * 2)) (tile_block 2 0 [0, 1, 8, 9, 8, 9])"
    using g(2) by blast
  moreover note g(3)[unfolded grid] generate_grid_2_2_3
  ultimately show ?thesis using w t by (simp only:) 
qed


section \<open>Indexing, assignment and brightness\<close>

lemma TileGrid_init_n:
  "TileGrid_init width height tile_num = Inr tg \<Longrightarrow> tg_n tg = int (length (tg_x tg))"
  by (auto simp: TileGrid_init_def Let_def split: if_splits sum.splits)

text \<open>
  C8. For a \<^verbatim>\<open>TileGrid\<close> with \<open>n\<close> sub-maps, \<^verbatim>\<open>__getitem__\<close> returns sub-map \<open>i\<close> for
  every \<open>i\<close> in \<open>[0, n)\<close>; a negative index is first increased by \<open>n\<close>, so index \<open>-1\<close>
  gives what index \<open>n - 1\<close> gives; an index that is still outside \<open>[0, n)\<close> after that,
  such as \<open>-(n + 1)\<close>, raises \<open>IndexError\<close>; a slice always raises
  \<open>NotImplementedError\<close>.
\<close>

theorem getitem_contract:
  "tg_n self = int (length (tg_x self)) \<Longrightarrow>
     (\<forall>i. 0 \<le> i \<and> i < tg_n self \<longrightarrow>
          TileGrid_getitem self (IInt i) = Inr (tg_x self ! nat i))
   \<and> (\<forall>i. i < 0 \<and> 0 \<le> i + tg_n self \<longrightarrow>
          TileGrid_getitem self (IInt i) = Inr (tg_x self ! nat (i + tg_n self))
        \<and> TileGrid_getitem self (IInt i) = TileGrid_getitem self (IInt (i + tg_n self)))
   \<and> TileGrid_getitem self (IInt (- 1)) = TileGrid_getitem self (IInt (tg_n self - 1))
   \<and> (\<forall>i. i \<ge> tg_n self \<or> i + tg_n self < 0 \<longrightarrow>
          TileGrid_getitem self (IInt i) = Inl IndexError)
   \<and> TileGrid_getitem self (IInt (- (tg_n self + 1))) = Inl IndexError
   \<and> TileGrid_getitem self ISlice = Inl NotImplementedError"
proof -
  assume n: "tg_n self = int (length (tg_x self))"
  have a: "TileGrid_getitem self (IInt i) = Inr (tg_x self ! nat i)"
    if "0 \<le> i \<and> i < tg_n self" for i
    using that n by (simp add: TileGrid_getitem_def TileGrid_len_def list_getitem_def Let_def)
  have b: "TileGrid_getitem self (IInt i) = Inr (tg_x self ! nat (i + tg_n self))
        \<and> TileGrid_getitem self (IInt i) = TileGrid_getitem self (IInt (i + tg_n self))"
    if "i < 0 \<and> 0 \<le> i + tg_n self" for i
    using that n by (simp add: TileGrid_getitem_def TileGrid_len_def list_getitem_def Let_def)
  have c: "TileGrid_getitem self (IInt (- 1)) = TileGrid_getitem self (IInt (tg_n self - 1))"
    using n by (simp add: TileGrid_getitem_def TileGrid_len_def list_getitem_def Let_def)
  have d: "TileGrid_getitem self (IInt i) = Inl IndexError"
    if "i \<ge> tg_n self \<or> i + tg_n self < 0" for i
    using that n by (auto simp: TileGrid_getitem_def TileGrid_len_def list_getitem_def Let_def)
  have e: "TileGrid_getitem self (IInt (- (tg_n self + 1))) = Inl IndexError"
    using n by (simp add: TileGrid_getitem_def TileGrid_len_def list_getitem_def Let_def)
  have f: "TileGrid_getitem self ISlice = Inl NotImplementedError"
    by (simp add: TileGrid_getitem_def)
  show ?thesis using a b c d e f by blast
qed


theorem getitem_contract_witness:
  "tg_n example_grid = int (length (tg_x example_grid))
   \<and> TileGrid_getitem example_grid (IInt 0) = Inr (PixelMap_init [0, 1, 8, 9] True)
   \<and> TileGrid_getitem example_grid (IInt (- 1)) = Inr (PixelMap_init [7, 6, 15, 14] True)
   \<and> TileGrid_getitem example_grid (IInt (- 1)) = TileGrid_getitem example_grid (IInt 3)
   \<and> TileGrid_getitem example_grid (IInt (- 5)) = Inl IndexError
   \<and> TileGrid_getitem example_grid (IInt 4) = Inl IndexError
   \<and> TileGrid_getitem example_grid ISlice = Inl NotImplementedError"
proof -
  have n: "tg_n example_grid = int (length (tg_x example_grid))"
    by (simp add: example_grid_def)
  note c = getitem_contract [OF n]
  have n4: "tg_n example_grid = 4" by (simp add: example_grid_def)
  have "TileGrid_getitem example_grid (IInt 0) = Inr (tg_x example_grid ! nat 0)"
    using c n4 by simp
  moreover have "TileGrid_getitem example_grid (IInt (- 1)) =
                   Inr (tg_x example_grid ! nat (- 1 + tg_n example_grid))"
    using c n4 by simp
  moreover have "TileGrid_getitem example_grid (IInt (- 1)) =
                   TileGrid_getitem example_grid (IInt (tg_n example_grid - 1))"
    using c by blast
  moreover have "TileGrid_getitem example_grid (IInt (- (tg_n example_grid + 1))) = Inl IndexError"
    using c by blast
  moreover have "TileGrid_getitem example_grid (IInt 4) = Inl IndexError"
    using c n4 by simp
  moreover have "TileGrid_getitem example_grid ISlice = Inl NotImplementedError"
    using c by blast
  ultimately show ?thesis
    using n by (simp add: n4) (simp add: example_grid_def)
qed

text \<open>
  C9. Assigning through a single integer index raises \<open>ValueError\<close>. Assigning through
  a tuple whose first component selects a sub-map and whose second component is the
  in-tile coordinate hands the colour to that sub-map's own assignment; when that
  succeeds, \<^verbatim>\<open>show()\<close> is called afterwards if and only if the strip's
  \<^verbatim>\<open>auto_write\<close> flag is set, and when it fails its error is the result.
\<close>

theorem setitem_contract:
  "(\<forall>i. TileGrid_setitem pm_setitem self (IInt i) val (pixels :: 'c strip) = Inl ValueError)
   \<and> TileGrid_setitem pm_setitem self ISlice val pixels = Inl NotImplementedError
   \<and> (\<forall>t y rest sub.
         list_getitem (tg_x self) t = Inr sub \<longrightarrow>
           TileGrid_setitem pm_setitem self (ITuple (t # y # rest)) val pixels =
             (case pm_setitem sub y val pixels of
                Inl e \<Rightarrow> Inl e
              | Inr pixels' \<Rightarrow>
                  Inr (if strip_auto_write pixels' then TileGrid_show pixels' else pixels')))
   \<and> (\<forall>p :: 'c strip. TileGrid_show p = p\<lparr>strip_shows := Suc (strip_shows p)\<rparr>)"
proof (intro conjI allI impI)
  fix i
  show "TileGrid_setitem pm_setitem self (IInt i) val pixels = Inl ValueError"
    by (simp add: TileGrid_setitem_def)
next
  show "TileGrid_setitem pm_setitem self ISlice val pixels = Inl NotImplementedError"
    by (simp add: TileGrid_setitem_def)
next
  fix t y rest sub
  assume "list_getitem (tg_x self) t = Inr sub"
  then show "TileGrid_setitem pm_setitem self (ITuple (t # y # rest)) val pixels =
             (case pm_setitem sub y val pixels of
                Inl e \<Rightarrow> Inl e
              | Inr pixels' \<Rightarrow>
                  Inr (if strip_auto_write pixels' then TileGrid_show pixels' else pixels'))"
    by (simp add: TileGrid_setitem_def list_getitem_def[of "t # y # rest"])
next
  fix p :: "'c strip"
  show "TileGrid_show p = p\<lparr>strip_shows := Suc (strip_shows p)\<rparr>"
    by (simp add: TileGrid_show_def strip_show_def)
qed

theorem setitem_contract_witness:
  "list_getitem (tg_x example_grid) 1 = Inr (PixelMap_init [3, 2, 11, 10] True)
   \<and> TileGrid_setitem example_pm_setitem example_grid (IInt 1) 7 example_strip = Inl ValueError
   \<and> TileGrid_setitem example_pm_setitem example_grid (ITuple [1, 2]) 7 example_strip =
       Inr \<lparr>strip_pixels = (replicate 16 0)[11 := 7], strip_brightness = 1,
            strip_auto_write = True, strip_shows = 1\<rparr>
   \<and> TileGrid_setitem example_pm_setitem example_grid (ITuple [1, 2]) 7
         (example_strip\<lparr>strip_auto_write := False\<rparr>) =
       Inr \<lparr>strip_pixels = (replicate 16 0)[11 := 7], strip_brightness = 1,
            strip_auto_write = False, strip_shows = 0\<rparr>"
proof -
  have sub: "list_getitem (tg_x example_grid) 1 = Inr (PixelMap_init [3, 2, 11, 10] True)"
    by (simp add: example_grid_def list_getitem_def)
  have w: "example_pm_setitem (PixelMap_init [3, 2, 11, 10] True) 2 7 p =
             Inr (p\<lparr>strip_pixels := (strip_pixels p)[11 := 7]\<rparr>)"
    if "length (strip_pixels p) = 16" for p :: "nat strip"
    using that by (simp add: example_pm_setitem_def PixelMap_init_def list_getitem_def)
  note c = setitem_contract [of example_pm_setitem example_grid 7]
  have "TileGrid_setitem example_pm_setitem example_grid (IInt 1) 7 example_strip = Inl ValueError"
    using c[of example_strip] by blast
  moreover have "TileGrid_setitem example_pm_setitem example_grid (ITuple [1, 2]) 7 p =
             (case example_pm_setitem (PixelMap_init [3, 2, 11, 10] True) 2 7 p of
                Inl e \<Rightarrow> Inl e
              | Inr pixels' \<Rightarrow>
                  Inr (if strip_auto_write pixels' then TileGrid_show pixels' else pixels'))"
    for p :: "nat strip"
    using c[of p] sub by blast
  ultimately show ?thesis
    using sub by (simp add: w example_strip_def TileGrid_show_def strip_show_def)
qed

text \<open>
  C10. Setting the brightness to \<open>b\<close> stores \<open>min(max(b, 0.0), 1.0)\<close> on the strip and
  changes nothing else: \<open>-0.5\<close> stores \<open>0.0\<close>, \<open>1.5\<close> stores \<open>1.0\<close>, \<open>0.5\<close> stores
  \<open>0.5\<close>. Reading the brightness returns the strip's value unchanged.
\<close>

theorem brightness_clamp:
  "TileGrid_set_brightness b pixels = pixels\<lparr>strip_brightness := min (max b 0) 1\<rparr>
   \<and> TileGrid_brightness (TileGrid_set_brightness b pixels) = min (max b 0) 1
   \<and> strip_brightness (TileGrid_set_brightness (- 0.5) pixels) = 0
   \<and> strip_brightness (TileGrid_set_brightness 1.5 pixels) = 1
   \<and> strip_brightness (TileGrid_set_brightness 0.5 pixels) = 0.5
   \<and> TileGrid_brightness pixels = strip_brightness pixels"
  by (simp add: TileGrid_set_brightness_def TileGrid_brightness_def py_min_def py_max_def
      min_def max_def)


end
